theory Spec2Isabelle
  imports Main "HOL-Library.Word" "HOL-Library.Sublist"
begin

section \<open>Values of the JavaScript runtime\<close>

text \<open>
  The program is one ES module, \<^verbatim>\<open>src/index.js\<close>, with two asynchronous functions:
  \<^verbatim>\<open>loadImageAsBase64\<close> and \<^verbatim>\<open>invokeClaude\<close>. Every \<^verbatim>\<open>await\<close> is sequential, so a
  promise is modelled by its outcome: a rejected promise (a thrown value) is \<open>Inl\<close>, a
  fulfilled one is \<open>Inr\<close>.

  A JavaScript string is a sequence of 16-bit code units, a file or a response body is a
  sequence of bytes. \<open>lit\<close> turns an ASCII literal of the source into code units.
\<close>

type_synonym byte = "8 word"
type_synonym code_unit = "16 word"
type_synonym js_string = "code_unit list"

definition lit :: "string \<Rightarrow> js_string" where
  "lit s = map of_char s"

text \<open>
  Values that JSON text denotes. A number is carried as its decimal text: the program does
  no arithmetic, it only writes the numerals \<^verbatim>\<open>500\<close> and \<^verbatim>\<open>0.5\<close> into a request. The
  members of an object are kept in insertion order, which is the order JavaScript keeps
  for keys that are not array indices (no key of the request is one). A JavaScript value
  that may also be \<^verbatim>\<open>undefined\<close> is a \<open>json option\<close>, with \<open>None\<close> for
  \<^verbatim>\<open>undefined\<close>.
\<close>

datatype json =
    JNull
  | JBool bool
  | JNumber js_string
  | JString js_string
  | JArray "json list"
  | JObject "(js_string \<times> json) list"

text \<open>
  Thrown values. \<^verbatim>\<open>err instanceof AccessDeniedException\<close> is the test for the
  constructor \<open>AccessDeniedException\<close>; every other value the SDK client may throw is an
  \<open>OtherException\<close> with its name and message.
\<close>

datatype js_error =
    SystemError string
  | AccessDeniedException string
  | OtherException string string
  | SyntaxError
  | TypeError

fun is_AccessDeniedException :: "js_error \<Rightarrow> bool" where
  "is_AccessDeniedException (AccessDeniedException _) = True"
| "is_AccessDeniedException _ = False"


section \<open>Buffer.toString('base64') and its inverse\<close>

definition base64_alphabet :: js_string where
  "base64_alphabet = lit ''ABCDEFGHIJKLMNOPQRSTUVWXYZabcdefghijklmnopqrstuvwxyz0123456789+/''"

definition base64_pad :: code_unit where
  "base64_pad = of_char CHR ''=''"

definition base64_char :: "nat \<Rightarrow> code_unit" where
  "base64_char i = base64_alphabet ! i"

text \<open>
  Three bytes \<open>a\<close>, \<open>b\<close>, \<open>c\<close> are 24 bits, read as four 6-bit groups. The groups are
  written with division and remainder on the unsigned values of the bytes.
\<close>

definition sextet1 :: "byte \<Rightarrow> nat" where
  "sextet1 a = unat a div 4"

definition sextet2 :: "byte \<Rightarrow> byte \<Rightarrow> nat" where
  "sextet2 a b = unat a mod 4 * 16 + unat b div 16"

definition sextet3 :: "byte \<Rightarrow> byte \<Rightarrow> nat" where
  "sextet3 b c = unat b mod 16 * 4 + unat c div 64"

definition sextet4 :: "byte \<Rightarrow> nat" where
  "sextet4 c = unat c mod 64"

text \<open>
  One or two trailing bytes are completed with zero bits and the output is padded with
  \<^verbatim>\<open>=\<close> to four characters.
\<close>

fun base64_encode :: "byte list \<Rightarrow> js_string" where
  "base64_encode [] = []"
| "base64_encode [a] =
     [base64_char (sextet1 a), base64_char (sextet2 a 0), base64_pad, base64_pad]"
| "base64_encode [a, b] =
     [base64_char (sextet1 a), base64_char (sextet2 a b), base64_char (sextet3 b 0),
      base64_pad]"
| "base64_encode (a # b # c # rest) =
     [base64_char (sextet1 a), base64_char (sextet2 a b), base64_char (sextet3 b c),
      base64_char (sextet4 c)]
     @ base64_encode rest"

fun index_of :: "'a \<Rightarrow> 'a list \<Rightarrow> nat option" where
  "index_of x [] = None"
| "index_of x (y # ys) = (if x = y then Some 0 else map_option Suc (index_of x ys))"

definition base64_value :: "code_unit \<Rightarrow> nat option" where
  "base64_value c = index_of c base64_alphabet"

definition octet1 :: "nat \<Rightarrow> nat \<Rightarrow> byte" where
  "octet1 s1 s2 = of_nat (s1 * 4 + s2 div 16)"

definition octet2 :: "nat \<Rightarrow> nat \<Rightarrow> byte" where
  "octet2 s2 s3 = of_nat (s2 mod 16 * 16 + s3 div 4)"

definition octet3 :: "nat \<Rightarrow> nat \<Rightarrow> byte" where
  "octet3 s3 s4 = of_nat (s3 mod 4 * 64 + s4)"

text \<open>
  The decoder of RFC 4648, the one the round-trip property speaks of: groups of four
  characters, padding only in the last group, \<open>None\<close> on any other text.
\<close>

fun base64_decode :: "js_string \<Rightarrow> byte list option" where
  "base64_decode [] = Some []"
| "base64_decode [c1, c2, c3, c4] =
     (case (base64_value c1, base64_value c2) of
        (Some s1, Some s2) \<Rightarrow>
          if c3 = base64_pad \<and> c4 = base64_pad then Some [octet1 s1 s2]
          else (case base64_value c3 of
                  None \<Rightarrow> None
                | Some s3 \<Rightarrow>
                    if c4 = base64_pad then Some [octet1 s1 s2, octet2 s2 s3]
                    else (case base64_value c4 of
                            None \<Rightarrow> None
                          | Some s4 \<Rightarrow> Some [octet1 s1 s2, octet2 s2 s3, octet3 s3 s4]))
      | _ \<Rightarrow> None)"
| "base64_decode (c1 # c2 # c3 # c4 # rest) =
     (case (base64_value c1, base64_value c2, base64_value c3, base64_value c4) of
        (Some s1, Some s2, Some s3, Some s4) \<Rightarrow>
          (case base64_decode rest of
             None \<Rightarrow> None
           | Some bs \<Rightarrow> Some (octet1 s1 s2 # octet2 s2 s3 # octet3 s3 s4 # bs))
      | _ \<Rightarrow> None)"
| "base64_decode _ = None"


section \<open>TextDecoder.decode\<close>

text \<open>
  \<^verbatim>\<open>new TextDecoder().decode(bytes)\<close> decodes UTF-8 and never throws: each ill-formed
  sequence becomes U+FFFD, and a byte that cannot continue a sequence is read again as the
  start of the next one. \<open>Continue cp needed lower upper\<close> is the decoder inside a
  sequence: the code point so far, the bytes still needed, and the range allowed for the
  next byte. A leading byte order mark is dropped, and a code point above U+FFFF becomes a
  surrogate pair.
\<close>

datatype utf8_state = Start | Continue nat nat nat nat

definition utf8_lead :: "nat \<Rightarrow> nat list \<times> utf8_state" where
  "utf8_lead b =
     (if b \<le> 0x7F then ([b], Start)
      else if 0xC2 \<le> b \<and> b \<le> 0xDF then ([], Continue (b mod 32) 1 0x80 0xBF)
      else if 0xE0 \<le> b \<and> b \<le> 0xEF
        then ([], Continue (b mod 16) 2 (if b = 0xE0 then 0xA0 else 0x80)
                    (if b = 0xED then 0x9F else 0xBF))
      else if 0xF0 \<le> b \<and> b \<le> 0xF4
        then ([], Continue (b mod 8) 3 (if b = 0xF0 then 0x90 else 0x80)
                    (if b = 0xF4 then 0x8F else 0xBF))
      else ([0xFFFD], Start))"

fun utf8_decode :: "utf8_state \<Rightarrow> byte list \<Rightarrow> nat list" where
  "utf8_decode Start [] = []"
| "utf8_decode (Continue cp needed lower upper) [] = [0xFFFD]"
| "utf8_decode Start (b # bs) =
     (case utf8_lead (unat b) of (out, st) \<Rightarrow> out @ utf8_decode st bs)"
| "utf8_decode (Continue cp needed lower upper) (b # bs) =
     (if unat b < lower \<or> upper < unat b
      then 0xFFFD # (case utf8_lead (unat b) of (out, st) \<Rightarrow> out @ utf8_decode st bs)
      else if needed = 1 then (cp * 64 + unat b mod 64) # utf8_decode Start bs
      else utf8_decode (Continue (cp * 64 + unat b mod 64) (needed - 1) 0x80 0xBF) bs)"

definition strip_bom :: "nat list \<Rightarrow> nat list" where
  "strip_bom cps = (case cps of [] \<Rightarrow> [] | c # cs \<Rightarrow> if c = 0xFEFF then cs else cps)"

definition utf16_units :: "nat \<Rightarrow> js_string" where
  "utf16_units cp =
     (if cp < 0x10000 then [of_nat cp]
      else [of_nat (0xD800 + (cp - 0x10000) div 1024), of_nat (0xDC00 + (cp - 0x10000) mod 1024)])"

definition TextDecoder_decode :: "byte list \<Rightarrow> js_string" where
  "TextDecoder_decode bytes = concat (map utf16_units (strip_bom (utf8_decode Start bytes)))"

definition utf8_bytes :: "string \<Rightarrow> byte list" where
  "utf8_bytes s = map of_char s"


section \<open>JSON.parse\<close>

text \<open>
  The JSON grammar of ECMA-404, in two passes: \<open>tokenize\<close> reads the text into tokens,
  \<open>parse_value\<close> and \<open>after_value\<close> run a stack of open arrays and objects over the
  tokens. Any text outside the grammar is a \<open>SyntaxError\<close>. A repeated key of an object
  keeps its first position and takes the last value, as property definition does. A number
  keeps the text it was written with, where the engine would round it to a double, and the
  members stay in the order of the text, where the engine lists array-index keys first:
  strings, booleans, \<^verbatim>\<open>null\<close>, and which members and elements a value has, are exact.
\<close>

datatype token =
    LBrace | RBrace | LBracket | RBracket | Colon | Comma
  | TString js_string | TNumber js_string | TTrue | TFalse | TNull

definition is_whitespace :: "code_unit \<Rightarrow> bool" where
  "is_whitespace c \<longleftrightarrow> c = 0x09 \<or> c = 0x0A \<or> c = 0x0D \<or> c = 0x20"

definition is_digit :: "code_unit \<Rightarrow> bool" where
  "is_digit c \<longleftrightarrow> 0x30 \<le> c \<and> c \<le> 0x39"

definition hex_value :: "code_unit \<Rightarrow> nat option" where
  "hex_value c =
     (if 0x30 \<le> c \<and> c \<le> 0x39 then Some (unat c - 0x30)
      else if 0x41 \<le> c \<and> c \<le> 0x46 then Some (unat c - 0x41 + 10)
      else if 0x61 \<le> c \<and> c \<le> 0x66 then Some (unat c - 0x61 + 10)
      else None)"

definition hex4 :: "code_unit \<Rightarrow> code_unit \<Rightarrow> code_unit \<Rightarrow> code_unit \<Rightarrow> code_unit option" where
  "hex4 h1 h2 h3 h4 =
     (case (hex_value h1, hex_value h2, hex_value h3, hex_value h4) of
        (Some a, Some b, Some c, Some d) \<Rightarrow> Some (of_nat (a * 4096 + b * 256 + c * 16 + d))
      | _ \<Rightarrow> None)"

definition simple_escape :: "code_unit \<Rightarrow> code_unit option" where
  "simple_escape c =
     (if c = 0x22 then Some 0x22
      else if c = 0x5C then Some 0x5C
      else if c = 0x2F then Some 0x2F
      else if c = 0x62 then Some 0x08
      else if c = 0x66 then Some 0x0C
      else if c = 0x6E then Some 0x0A
      else if c = 0x72 then Some 0x0D
      else if c = 0x74 then Some 0x09
      else None)"

fun read_string :: "js_string \<Rightarrow> (js_string \<times> js_string) option" where
  "read_string [] = None"
| "read_string (c # cs) =
     (if c = 0x22 then Some ([], cs)
      else if c = 0x5C then
        (case cs of
           [] \<Rightarrow> None
         | d # ds \<Rightarrow>
             if d = 0x75 then
               (case ds of
                  h1 # h2 # h3 # h4 # rest \<Rightarrow>
                    (case hex4 h1 h2 h3 h4 of
                       None \<Rightarrow> None
                     | Some u \<Rightarrow> map_option (apfst ((#) u)) (read_string rest))
                | _ \<Rightarrow> None)
             else
               (case simple_escape d of
                  None \<Rightarrow> None
                | Some u \<Rightarrow> map_option (apfst ((#) u)) (read_string ds)))
      else if c < 0x20 then None
      else map_option (apfst ((#) c)) (read_string cs))"

definition read_digits :: "js_string \<Rightarrow> (js_string \<times> js_string) option" where
  "read_digits s =
     (if takeWhile is_digit s = [] then None
      else Some (takeWhile is_digit s, dropWhile is_digit s))"

definition read_int :: "js_string \<Rightarrow> (js_string \<times> js_string) option" where
  "read_int s =
     (case s of
        [] \<Rightarrow> None
      | c # cs \<Rightarrow>
          if c = 0x30 then Some ([c], cs)
          else if is_digit c then Some (c # takeWhile is_digit cs, dropWhile is_digit cs)
          else None)"

definition read_fraction :: "js_string \<Rightarrow> (js_string \<times> js_string) option" where
  "read_fraction s =
     (case s of
        [] \<Rightarrow> Some ([], s)
      | c # cs \<Rightarrow>
          if c = 0x2E then map_option (apfst ((#) c)) (read_digits cs)
          else Some ([], s))"

definition read_exponent :: "js_string \<Rightarrow> (js_string \<times> js_string) option" where
  "read_exponent s =
     (case s of
        [] \<Rightarrow> Some ([], s)
      | c # cs \<Rightarrow>
          if c = 0x65 \<or> c = 0x45 then
            (case cs of
               [] \<Rightarrow> None
             | d # ds \<Rightarrow>
                 if d = 0x2B \<or> d = 0x2D
                 then map_option (apfst (\<lambda>digits. c # d # digits)) (read_digits ds)
                 else map_option (apfst ((#) c)) (read_digits cs))
          else Some ([], s))"

definition read_number :: "js_string \<Rightarrow> (js_string \<times> js_string) option" where
  "read_number s =
     (let (sign, s0) = (case s of [] \<Rightarrow> ([], s) | c # cs \<Rightarrow> if c = 0x2D then ([c], cs) else ([], s))
      in case read_int s0 of
           None \<Rightarrow> None
         | Some (i, s1) \<Rightarrow>
             (case read_fraction s1 of
                None \<Rightarrow> None
              | Some (f, s2) \<Rightarrow>
                  (case read_exponent s2 of
                     None \<Rightarrow> None
                   | Some (x, s3) \<Rightarrow> Some (sign @ i @ f @ x, s3))))"

lemma read_string_shorter: "read_string cs = Some (s, rest) \<Longrightarrow> length rest < length cs"
proof (induction "length cs" arbitrary: cs s rule: less_induct)
  case less
  note IH = less.hyps [rotated]
  show ?case
  proof (cases cs)
    case Nil
    with less.prems show ?thesis by simp
  next
    case (Cons c cs')
    with less.prems show ?thesis
      by (auto split: if_splits list.splits option.splits dest!: IH)
  qed
qed

lemma read_digits_shorter: "read_digits s = Some (d, rest) \<Longrightarrow> length rest \<le> length s"
  by (auto simp add: read_digits_def length_dropWhile_le split: if_splits)

lemma read_int_shorter: "read_int s = Some (d, rest) \<Longrightarrow> length rest < length s"
  by (auto simp add: read_int_def less_Suc_eq_le length_dropWhile_le split: list.splits if_splits)

lemma read_fraction_shorter: "read_fraction s = Some (d, rest) \<Longrightarrow> length rest \<le> length s"
  by (auto simp add: read_fraction_def le_Suc_eq split: list.splits if_splits
      dest!: read_digits_shorter)

lemma read_exponent_shorter: "read_exponent s = Some (d, rest) \<Longrightarrow> length rest \<le> length s"
  by (auto simp add: read_exponent_def split: list.splits if_splits dest!: read_digits_shorter)

lemma read_number_shorter: "read_number s = Some (n, rest) \<Longrightarrow> length rest < length s"
  by (auto simp add: read_number_def split: list.splits if_splits option.splits prod.splits
      dest!: read_int_shorter read_fraction_shorter read_exponent_shorter)

function tokenize :: "js_string \<Rightarrow> token list option" where
  "tokenize [] = Some []"
| "tokenize (c # cs) =
     (if is_whitespace c then tokenize cs
      else if c = 0x7B then map_option ((#) LBrace) (tokenize cs)
      else if c = 0x7D then map_option ((#) RBrace) (tokenize cs)
      else if c = 0x5B then map_option ((#) LBracket) (tokenize cs)
      else if c = 0x5D then map_option ((#) RBracket) (tokenize cs)
      else if c = 0x3A then map_option ((#) Colon) (tokenize cs)
      else if c = 0x2C then map_option ((#) Comma) (tokenize cs)
      else if c = 0x22 then
        (case read_string cs of
           None \<Rightarrow> None
         | Some (s, rest) \<Rightarrow> map_option ((#) (TString s)) (tokenize rest))
      else if c = 0x2D \<or> is_digit c then
        (case read_number (c # cs) of
           None \<Rightarrow> None
         | Some (n, rest) \<Rightarrow> map_option ((#) (TNumber n)) (tokenize rest))
      else if take 4 (c # cs) = lit ''true'' then map_option ((#) TTrue) (tokenize (drop 3 cs))
      else if take 5 (c # cs) = lit ''false'' then map_option ((#) TFalse) (tokenize (drop 4 cs))
      else if take 4 (c # cs) = lit ''null'' then map_option ((#) TNull) (tokenize (drop 3 cs))
      else None)"
  by pat_completeness auto
termination
  by (relation "measure length")
    (auto dest: read_string_shorter read_number_shorter)

fun define_property :: "js_string \<Rightarrow> json \<Rightarrow> (js_string \<times> json) list \<Rightarrow> (js_string \<times> json) list" where
  "define_property k v [] = [(k, v)]"
| "define_property k v ((k', v') # ms) =
     (if k = k' then (k, v) # ms else (k', v') # define_property k v ms)"

datatype frame = InArray "json list" | InObject "(js_string \<times> json) list" js_string

fun parse_value :: "frame list \<Rightarrow> token list \<Rightarrow> json option"
  and after_value :: "json \<Rightarrow> frame list \<Rightarrow> token list \<Rightarrow> json option" where
  "parse_value st [] = None"
| "parse_value st (t # ts) =
     (case t of
        TString s \<Rightarrow> after_value (JString s) st ts
      | TNumber n \<Rightarrow> after_value (JNumber n) st ts
      | TTrue \<Rightarrow> after_value (JBool True) st ts
      | TFalse \<Rightarrow> after_value (JBool False) st ts
      | TNull \<Rightarrow> after_value JNull st ts
      | LBracket \<Rightarrow>
          (case ts of
             RBracket # ts' \<Rightarrow> after_value (JArray []) st ts'
           | _ \<Rightarrow> parse_value (InArray [] # st) ts)
      | LBrace \<Rightarrow>
          (case ts of
             RBrace # ts' \<Rightarrow> after_value (JObject []) st ts'
           | TString k # Colon # ts' \<Rightarrow> parse_value (InObject [] k # st) ts'
           | _ \<Rightarrow> None)
      | _ \<Rightarrow> None)"
| "after_value v [] ts = (if ts = [] then Some v else None)"
| "after_value v (InArray elems # st) ts =
     (case ts of
        Comma # ts' \<Rightarrow> parse_value (InArray (elems @ [v]) # st) ts'
      | RBracket # ts' \<Rightarrow> after_value (JArray (elems @ [v])) st ts'
      | _ \<Rightarrow> None)"
| "after_value v (InObject ms k # st) ts =
     (case ts of
        Comma # TString k' # Colon # ts' \<Rightarrow>
          parse_value (InObject (define_property k v ms) k' # st) ts'
      | RBrace # ts' \<Rightarrow> after_value (JObject (define_property k v ms)) st ts'
      | _ \<Rightarrow> None)"

definition JSON_parse :: "js_string \<Rightarrow> js_error + json" where
  "JSON_parse text =
     (case tokenize text of
        None \<Rightarrow> Inl SyntaxError
      | Some ts \<Rightarrow> (case parse_value [] ts of None \<Rightarrow> Inl SyntaxError | Some v \<Rightarrow> Inr v))"


section \<open>Property access\<close>

text \<open>
  \<^verbatim>\<open>value.name\<close> for the two names the program reads, \<^verbatim>\<open>content\<close> and \<^verbatim>\<open>text\<close>:
  a \<open>TypeError\<close> on \<^verbatim>\<open>undefined\<close> and \<^verbatim>\<open>null\<close>, the member of an object when it has
  one, and \<^verbatim>\<open>undefined\<close> otherwise (no array, string, number, boolean or object prototype
  has a property of either name).
\<close>

fun get_member :: "json option \<Rightarrow> js_string \<Rightarrow> js_error + json option" where
  "get_member None name = Inl TypeError"
| "get_member (Some JNull) name = Inl TypeError"
| "get_member (Some (JObject ms)) name = Inr (map_of ms name)"
| "get_member (Some _) name = Inr None"

text \<open>
  \<^verbatim>\<open>value[0]\<close>: the first element of an array, the first code unit of a string, the
  member \<^verbatim>\<open>"0"\<close> of an object, each \<^verbatim>\<open>undefined\<close> when absent.
\<close>

fun get_element0 :: "json option \<Rightarrow> js_error + json option" where
  "get_element0 None = Inl TypeError"
| "get_element0 (Some JNull) = Inl TypeError"
| "get_element0 (Some (JArray xs)) = Inr (case xs of [] \<Rightarrow> None | x # _ \<Rightarrow> Some x)"
| "get_element0 (Some (JString s)) = Inr (case s of [] \<Rightarrow> None | c # _ \<Rightarrow> Some (JString [c]))"
| "get_element0 (Some (JObject ms)) = Inr (map_of ms (lit ''0''))"
| "get_element0 (Some _) = Inr None"


section \<open>JSON.stringify\<close>

text \<open>
  Without an indentation argument: no white space, members in insertion order. A string
  is quoted as QuoteJSONString does: the short escapes, \<^verbatim>\<open>\u\<close> with four lower-case
  hexadecimal digits for the other control characters and for a surrogate that has no
  partner, every other code unit as it is.
\<close>

definition hex_digit :: "nat \<Rightarrow> code_unit" where
  "hex_digit n = lit ''0123456789abcdef'' ! n"

definition unicode_escape :: "code_unit \<Rightarrow> js_string" where
  "unicode_escape c =
     [0x5C, 0x75, hex_digit (unat c div 4096), hex_digit (unat c div 256 mod 16),
      hex_digit (unat c div 16 mod 16), hex_digit (unat c mod 16)]"

definition is_high_surrogate :: "code_unit \<Rightarrow> bool" where
  "is_high_surrogate c \<longleftrightarrow> 0xD800 \<le> c \<and> c \<le> 0xDBFF"

definition is_low_surrogate :: "code_unit \<Rightarrow> bool" where
  "is_low_surrogate c \<longleftrightarrow> 0xDC00 \<le> c \<and> c \<le> 0xDFFF"

definition quote_unit :: "code_unit \<Rightarrow> js_string" where
  "quote_unit c =
     (if c = 0x08 then [0x5C, 0x62]
      else if c = 0x09 then [0x5C, 0x74]
      else if c = 0x0A then [0x5C, 0x6E]
      else if c = 0x0C then [0x5C, 0x66]
      else if c = 0x0D then [0x5C, 0x72]
      else if c = 0x22 then [0x5C, 0x22]
      else if c = 0x5C then [0x5C, 0x5C]
      else if c < 0x20 \<or> is_high_surrogate c \<or> is_low_surrogate c then unicode_escape c
      else [c])"

fun quote_units :: "js_string \<Rightarrow> js_string" where
  "quote_units [] = []"
| "quote_units [c] = quote_unit c"
| "quote_units (c # d # cs) =
     (if is_high_surrogate c \<and> is_low_surrogate d then c # d # quote_units cs
      else quote_unit c @ quote_units (d # cs))"

definition QuoteJSONString :: "js_string \<Rightarrow> js_string" where
  "QuoteJSONString s = 0x22 # quote_units s @ [0x22]"

fun join :: "'a list \<Rightarrow> 'a list list \<Rightarrow> 'a list" where
  "join sep [] = []"
| "join sep [x] = x"
| "join sep (x # y # ys) = x @ sep @ join sep (y # ys)"

fun JSON_stringify :: "json \<Rightarrow> js_string" where
  "JSON_stringify JNull = lit ''null''"
| "JSON_stringify (JBool b) = (if b then lit ''true'' else lit ''false'')"
| "JSON_stringify (JNumber n) = n"
| "JSON_stringify (JString s) = QuoteJSONString s"
| "JSON_stringify (JArray xs) = 0x5B # join [0x2C] (map JSON_stringify xs) @ [0x5D]"
| "JSON_stringify (JObject ms) =
     0x7B # join [0x2C] (map (\<lambda>(k, v). QuoteJSONString k @ 0x3A # JSON_stringify v) ms) @ [0x7D]"


section \<open>The environment and the observable effects\<close>

text \<open>
  What the program submits to the SDK client: the object literal given to
  \<^verbatim>\<open>new InvokeModelCommand({body, contentType, accept, modelId})\<close>.
\<close>

record command =
  body :: js_string
  contentType :: js_string
  accept :: js_string
  modelId :: js_string

text \<open>
  The two opaque collaborators. \<open>readFile\<close> is \<^verbatim>\<open>fs.readFile\<close>: the bytes of the
  file, or the error it rejects with. \<open>send\<close> is \<^verbatim>\<open>client.send\<close> of a client created
  for a region: the bytes of \<^verbatim>\<open>response.body\<close>, or the value it throws.
\<close>

record env =
  readFile :: "js_string \<Rightarrow> js_error + byte list"
  send :: "js_string \<Rightarrow> command \<Rightarrow> js_error + byte list"

text \<open>
  The effects a caller can observe: the two output streams (one entry per call of
  \<^verbatim>\<open>console.log\<close> or \<^verbatim>\<open>console.error\<close>, holding its arguments), the files read
  and the requests submitted.
\<close>

datatype console_arg = Text js_string | Thrown js_error

record io =
  stdout :: "console_arg list list"
  stderr :: "console_arg list list"
  reads :: "js_string list"
  sent :: "(js_string \<times> command) list"

definition console_error :: "console_arg list \<Rightarrow> io \<Rightarrow> io" where
  "console_error args s = s\<lparr>stderr := stderr s @ [args]\<rparr>"


section \<open>loadImageAsBase64\<close>

text \<open>
  Lines 15 to 26. The \<^verbatim>\<open>try\<close> block reads the file and encodes it; the \<^verbatim>\<open>catch\<close>
  block logs the error with \<^verbatim>\<open>console.error\<close> and throws it again. Encoding a buffer
  cannot fail (the limit of the engine on the length of a string is not modelled), so the
  only error the \<^verbatim>\<open>catch\<close> block sees is the one of \<^verbatim>\<open>fs.readFile\<close>.
\<close>

definition loadImageAsBase64 :: "env \<Rightarrow> js_string \<Rightarrow> io \<Rightarrow> (js_error + js_string) \<times> io" where
  "loadImageAsBase64 e filePath s =
     (let s1 = s\<lparr>reads := reads s @ [filePath]\<rparr> in
      case readFile e filePath of
        Inr data \<Rightarrow> (Inr (base64_encode data), s1)
      | Inl error \<Rightarrow>
          (Inl error, console_error [Text (lit ''Error loading the image:''), Thrown error] s1))"


section \<open>invokeClaude\<close>

text \<open>Lines 42 and 44: the region of the client and the model identifier.\<close>

definition region :: js_string where
  "region = lit ''us-east-1''"

definition haiku_modelId :: js_string where
  "haiku_modelId = lit ''anthropic.claude-3-haiku-20240307-v1:0''"

text \<open>Lines 53 to 77: the object literal \<^verbatim>\<open>payload\<close>.\<close>

definition image_block :: "js_string \<Rightarrow> json" where
  "image_block imageBase64 =
     JObject
       [(lit ''type'', JString (lit ''image'')),
        (lit ''source'',
         JObject
           [(lit ''type'', JString (lit ''base64'')),
            (lit ''media_type'', JString (lit ''image/png'')),
            (lit ''data'', JString imageBase64)])]"

definition text_block :: "js_string \<Rightarrow> json" where
  "text_block prompt =
     JObject [(lit ''type'', JString (lit ''text'')), (lit ''text'', JString prompt)]"

definition payload :: "js_string \<Rightarrow> js_string \<Rightarrow> json" where
  "payload prompt imageBase64 =
     JObject
       [(lit ''messages'',
         JArray
           [JObject
              [(lit ''role'', JString (lit ''user'')),
               (lit ''content'', JArray [image_block imageBase64, text_block prompt])]]),
        (lit ''max_tokens'', JNumber (lit ''500'')),
        (lit ''temperature'', JNumber (lit ''0.5'')),
        (lit ''anthropic_version'', JString (lit ''bedrock-2023-05-31'')),
        (lit ''stop_sequences'', JArray [JString (0x0A # 0x0A # lit ''Human:'')])]"

text \<open>Lines 79 to 84: the command given to \<^verbatim>\<open>client.send\<close>.\<close>

definition invoke_command :: "js_string \<Rightarrow> js_string \<Rightarrow> command" where
  "invoke_command prompt imageBase64 =
     \<lparr>body = JSON_stringify (payload prompt imageBase64),
      contentType = lit ''application/json'',
      accept = lit ''application/json'',
      modelId = haiku_modelId\<rparr>"

text \<open>
  Lines 87 to 93, the body of the \<^verbatim>\<open>try\<close> block: send, decode, parse, and read
  \<^verbatim>\<open>responseBody.content[0].text\<close>. Each step may throw.
\<close>

definition remote_exchange :: "env \<Rightarrow> command \<Rightarrow> js_error + json option" where
  "remote_exchange e cmd =
     (case send e region cmd of
        Inl err \<Rightarrow> Inl err
      | Inr response_body \<Rightarrow>
          (case JSON_parse (TextDecoder_decode response_body) of
             Inl err \<Rightarrow> Inl err
           | Inr responseBody \<Rightarrow>
               (case get_member (Some responseBody) (lit ''content'') of
                  Inl err \<Rightarrow> Inl err
                | Inr content \<Rightarrow>
                    (case get_element0 content of
                       Inl err \<Rightarrow> Inl err
                     | Inr first \<Rightarrow> get_member first (lit ''text'')))))"

text \<open>Lines 96 to 98: the template literal of the warning.\<close>

definition access_denied_message :: js_string where
  "access_denied_message =
     lit ''Access denied. Ensure you have the correct permissions to invoke ''
     @ haiku_modelId @ lit ''.''"

text \<open>
  Lines 41 to 103. The image is loaded outside the \<^verbatim>\<open>try\<close> block, so its error
  leaves the function as it is. The \<^verbatim>\<open>catch\<close> block swallows an
  \<open>AccessDeniedException\<close> after the warning, and the function then ends without a
  \<^verbatim>\<open>return\<close>: its value is \<^verbatim>\<open>undefined\<close>. Any other error is thrown again.
\<close>

definition invokeClaude ::
    "env \<Rightarrow> js_string \<Rightarrow> js_string \<Rightarrow> io \<Rightarrow> (js_error + json option) \<times> io" where
  "invokeClaude e prompt imagePath s =
     (case loadImageAsBase64 e imagePath s of
        (Inl err, s1) \<Rightarrow> (Inl err, s1)
      | (Inr imageBase64, s1) \<Rightarrow>
          (let cmd = invoke_command prompt imageBase64;
               s2 = s1\<lparr>sent := sent s1 @ [(region, cmd)]\<rparr>
           in case remote_exchange e cmd of
                Inr completion \<Rightarrow> (Inr completion, s2)
              | Inl err \<Rightarrow>
                  if is_AccessDeniedException err
                  then (Inr None, console_error [Text access_denied_message] s2)
                  else (Inl err, s2)))"


section \<open>Concrete environments\<close>

text \<open>
  Two files exist, \<^verbatim>\<open>S3Permissions.png\<close> of the demo at the end of the module and a
  JPEG file \<^verbatim>\<open>photo.jpg\<close>; the endpoint answers every request with the given outcome.
\<close>

definition demo_env :: "js_error + byte list \<Rightarrow> env" where
  "demo_env outcome =
     \<lparr>readFile = (\<lambda>path. if path = lit ''S3Permissions.png''
                            then Inr [0x89, 0x50, 0x4E, 0x47, 0x0D]
                          else if path = lit ''photo.jpg''
                            then Inr [0xFF, 0xD8, 0xFF, 0xE0]
                          else Inl (SystemError ''ENOENT'')),
      send = (\<lambda>r cmd. outcome)\<rparr>"

definition io0 :: io where
  "io0 = \<lparr>stdout = [], stderr = [], reads = [], sent = []\<rparr>"


section \<open>The base64 round trip\<close>

lemma index_of_nth: "distinct xs \<Longrightarrow> n < length xs \<Longrightarrow> index_of (xs ! n) xs = Some n"
proof (induction xs arbitrary: n)
  case Nil then show ?case by simp
next
  case (Cons y ys)
  show ?case
  proof (cases n)
    case 0 then show ?thesis by simp
  next
    case (Suc m)
    with Cons.prems have "ys ! m \<in> set ys" "y \<notin> set ys" by auto
    then have "ys ! m \<noteq> y" by auto
    with Cons Suc show ?thesis by simp
  qed
qed

lemma distinct_base64_alphabet: "distinct base64_alphabet"
  by (simp add: base64_alphabet_def lit_def)

lemma length_base64_alphabet: "length base64_alphabet = 64"
  by (simp add: base64_alphabet_def lit_def)

lemma base64_pad_notin: "base64_pad \<notin> set base64_alphabet"
  by (simp add: base64_alphabet_def lit_def base64_pad_def)

lemma base64_value_char: "i < 64 \<Longrightarrow> base64_value (base64_char i) = Some i"
  by (simp add: base64_value_def base64_char_def index_of_nth distinct_base64_alphabet
      length_base64_alphabet)

lemma base64_char_not_pad: "i < 64 \<Longrightarrow> base64_char i \<noteq> base64_pad"
proof -
  assume "i < 64"
  then have "base64_alphabet ! i \<in> set base64_alphabet"
    by (simp add: length_base64_alphabet)
  with base64_pad_notin show ?thesis
    by (auto simp add: base64_char_def)
qed

lemma byte_bound: "unat (a :: byte) < 256"
  using unsigned_less [of a, where 'a = nat] by simp

lemma sextets_bounded:
  "sextet1 a < 64" "sextet2 a b < 64" "sextet3 b c < 64" "sextet4 c < 64"
proof -
  have "unat b div 16 < 16" "unat c div 64 < 4"
    using byte_bound [of b] byte_bound [of c] by simp_all
  moreover have "unat a mod 4 < 4" "unat b mod 16 < 16" by simp_all
  ultimately show "sextet2 a b < 64" "sextet3 b c < 64"
    unfolding sextet2_def sextet3_def by linarith+
  show "sextet1 a < 64" "sextet4 c < 64"
    using byte_bound [of a] by (simp_all add: sextet1_def sextet4_def)
qed

lemma octet1_sextets: "octet1 (sextet1 a) (sextet2 a b) = a"
proof -
  have "unat b div 16 < 16" using byte_bound [of b] by simp
  then have "unat a div 4 * 4 + (unat a mod 4 * 16 + unat b div 16) div 16 = unat a" by simp
  then show ?thesis by (simp add: octet1_def sextet1_def sextet2_def)
qed

lemma octet2_sextets: "octet2 (sextet2 a b) (sextet3 b c) = b"
proof -
  have "unat c div 64 < 4" using byte_bound [of c] by simp
  moreover have "unat b div 16 < 16" using byte_bound [of b] by simp
  ultimately have "(unat a mod 4 * 16 + unat b div 16) mod 16 * 16
      + (unat b mod 16 * 4 + unat c div 64) div 4 = unat b" by simp
  then show ?thesis by (simp add: octet2_def sextet2_def sextet3_def)
qed

lemma octet3_sextets: "octet3 (sextet3 b c) (sextet4 c) = c"
proof -
  have "unat c div 64 < 4" using byte_bound [of c] by simp
  then have "(unat b mod 16 * 4 + unat c div 64) mod 4 * 64 + unat c mod 64 = unat c" by simp
  then show ?thesis by (simp add: octet3_def sextet3_def sextet4_def)
qed

lemma base64_encode_Nil_iff: "base64_encode bs = [] \<longleftrightarrow> bs = []"
  by (cases bs rule: base64_encode.cases) simp_all

lemma base64_decode_encode: "base64_decode (base64_encode bs) = Some bs"
proof (induction bs rule: base64_encode.induct)
  case 1
  show ?case by simp
next
  case (2 a)
  show ?case
    by (simp add: base64_value_char sextets_bounded octet1_sextets)
next
  case (3 a b)
  show ?case
    by (simp add: base64_value_char base64_char_not_pad sextets_bounded octet1_sextets
        octet2_sextets)
next
  case (4 a b c rest)
  show ?case
  proof (cases rest)
    case Nil
    then show ?thesis
      by (simp add: base64_value_char base64_char_not_pad sextets_bounded octet1_sextets
          octet2_sextets octet3_sextets)
  next
    case (Cons r rs)
    then obtain x xs where "base64_encode rest = x # xs"
      by (cases "base64_encode rest") (simp_all add: base64_encode_Nil_iff)
    with 4 show ?thesis
      by (simp add: base64_value_char sextets_bounded octet1_sextets octet2_sextets
          octet3_sextets)
  qed
qed


section \<open>JSON.parse reads back what JSON.stringify writes\<close>

text \<open>
  First for a quoted string, whatever its code units, then for the payload of the request:
  its text, its tokens, and the value that \<open>JSON_parse\<close> gives for it.
\<close>

lemma hex_digit_values:
  "hex_digit 0 = 0x30" "hex_digit (Suc 0) = 0x31" "hex_digit 2 = 0x32" "hex_digit 3 = 0x33"
  "hex_digit 4 = 0x34" "hex_digit 5 = 0x35" "hex_digit 6 = 0x36" "hex_digit 7 = 0x37"
  "hex_digit 8 = 0x38" "hex_digit 9 = 0x39" "hex_digit 10 = 0x61" "hex_digit 11 = 0x62"
  "hex_digit 12 = 0x63" "hex_digit 13 = 0x64" "hex_digit 14 = 0x65" "hex_digit 15 = 0x66"
  by (simp_all add: hex_digit_def lit_def)

lemma below_16:
  "{0..<16::nat} = {0, 1, 2, 3, 4, 5, 6, 7, 8, 9, 10, 11, 12, 13, 14, 15}"
  by (simp add: atLeastLessThan_nat_numeral insert_commute)

lemma hex_value_digit: "n < 16 \<Longrightarrow> hex_value (hex_digit n) = Some n"
proof -
  assume "n < 16"
  then have "n \<in> {0..<16}" by simp
  then have "n \<in> {0, 1, 2, 3, 4, 5, 6, 7, 8, 9, 10, 11, 12, 13, 14, 15}"
    unfolding below_16 .
  then show ?thesis
    by (elim insertE emptyE) (simp_all add: hex_digit_values hex_value_def)
qed

lemma code_unit_bound: "unat (c :: code_unit) < 65536"
  using unsigned_less [of c, where 'a = nat] by simp

lemma hex_places:
  fixes x :: nat
  shows "x div 4096 * 4096 + x div 256 mod 16 * 256 + x div 16 mod 16 * 16 + x mod 16 = x"
proof -
  define y where "y = x div 16"
  define z where "z = y div 16"
  define w where "w = z div 16"
  have x: "x = y * 16 + x mod 16" by (simp add: y_def)
  have y: "y = z * 16 + y mod 16" by (simp add: z_def)
  have z: "z = w * 16 + z mod 16" by (simp add: w_def)
  have "x div 256 = z" "x div 4096 = w"
    by (simp_all add: w_def z_def y_def div_mult2_eq)
  moreover have "w * 4096 + z mod 16 * 256 + y mod 16 * 16 + x mod 16 = x"
    using x y z by linarith
  ultimately show ?thesis by (simp add: y_def)
qed

lemma hex4_unicode_digits:
  "hex4 (hex_digit (unat c div 4096)) (hex_digit (unat c div 256 mod 16))
        (hex_digit (unat c div 16 mod 16)) (hex_digit (unat c mod 16)) = Some c"
proof -
  have "unat c div 4096 < 16" using code_unit_bound [of c] by simp
  then show ?thesis
    by (simp add: hex4_def hex_value_digit hex_places)
qed

lemma read_string_plain:
  "c \<noteq> 0x22 \<Longrightarrow> c \<noteq> 0x5C \<Longrightarrow> \<not> c < 0x20 \<Longrightarrow>
   read_string (c # rest) = map_option (apfst ((#) c)) (read_string rest)"
  by simp

lemma surrogate_plain:
  assumes "is_high_surrogate c \<or> is_low_surrogate c"
  shows "c \<noteq> 0x22" "c \<noteq> 0x5C" "\<not> c < 0x20"
  using assms
  by (auto simp add: is_high_surrogate_def is_low_surrogate_def word_le_nat_alt word_less_nat_alt)

lemma read_string_unicode_escape:
  "read_string (unicode_escape c @ rest) = map_option (apfst ((#) c)) (read_string rest)"
  by (simp add: unicode_escape_def hex4_unicode_digits)

lemma read_string_quote_unit:
  "read_string (quote_unit c @ rest) = map_option (apfst ((#) c)) (read_string rest)"
proof -
  consider "c = 0x08" | "c = 0x09" | "c = 0x0A" | "c = 0x0C" | "c = 0x0D" | "c = 0x22"
    | "c = 0x5C"
    | "c \<notin> {0x08, 0x09, 0x0A, 0x0C, 0x0D, 0x22, 0x5C}"
      "c < 0x20 \<or> is_high_surrogate c \<or> is_low_surrogate c"
    | "c \<notin> {0x08, 0x09, 0x0A, 0x0C, 0x0D, 0x22, 0x5C}"
      "\<not> (c < 0x20 \<or> is_high_surrogate c \<or> is_low_surrogate c)"
    by blast
  then show ?thesis
  proof cases
    case 8
    then have "quote_unit c = unicode_escape c" by (simp add: quote_unit_def)
    then show ?thesis by (simp add: read_string_unicode_escape)
  next
    case 9
    then have "quote_unit c = [c]" by (simp add: quote_unit_def)
    with 9 show ?thesis by simp
  qed (simp_all add: quote_unit_def simple_escape_def)
qed

lemma read_string_quote_units:
  "read_string (quote_units s @ 0x22 # rest) = Some (s, rest)"
proof (induction s rule: quote_units.induct)
  case 1
  show ?case by simp
next
  case (2 c)
  show ?case by (simp add: read_string_quote_unit)
next
  case (3 c d cs)
  show ?case
  proof (cases "is_high_surrogate c \<and> is_low_surrogate d")
    case True
    then have "quote_units (c # d # cs) = c # d # quote_units cs" by simp
    then have "read_string (quote_units (c # d # cs) @ 0x22 # rest) =
        map_option (apfst ((#) c)) (map_option (apfst ((#) d))
          (read_string (quote_units cs @ 0x22 # rest)))"
      using True surrogate_plain [of c] surrogate_plain [of d]
      by (simp del: read_string.simps quote_units.simps add: read_string_plain)
    also have "\<dots> = Some (c # d # cs, rest)"
      using "3.IH"(1) [OF True] by simp
    finally show ?thesis .
  next
    case False
    then have "quote_units (c # d # cs) = quote_unit c @ quote_units (d # cs)" by auto
    then have "read_string (quote_units (c # d # cs) @ 0x22 # rest) =
        map_option (apfst ((#) c)) (read_string (quote_units (d # cs) @ 0x22 # rest))"
      by (simp only: append_assoc read_string_quote_unit)
    also have "\<dots> = Some (c # d # cs, rest)"
      using "3.IH"(2) [OF False] by simp
    finally show ?thesis .
  qed
qed

lemma tokenize_quoted:
  "tokenize (0x22 # quote_units s @ 0x22 # rest) = map_option ((#) (TString s)) (tokenize rest)"
  by (simp add: is_whitespace_def read_string_quote_units)

lemmas stringify_eval = payload_def image_block_def text_block_def QuoteJSONString_def lit_def
  quote_unit_def is_high_surrogate_def is_low_surrogate_def

lemma stringify_payload:
  "JSON_stringify (payload prompt imageBase64) =
     lit ''{\"messages\":[{\"role\":\"user\",\"content\":[{\"type\":\"image\",\"source\":{\"type\":\"base64\",\"media_type\":\"image/png\",\"data\":''
     @ QuoteJSONString imageBase64
     @ lit ''}},{\"type\":\"text\",\"text\":''
     @ QuoteJSONString prompt
     @ lit ''}]}],\"max_tokens\":500,\"temperature\":0.5,\"anthropic_version\":\"bedrock-2023-05-31\",\"stop_sequences\":[\"''
     @ [0x5C, 0x6E, 0x5C, 0x6E] @ lit ''Human:\"]}''"
  by (simp add: stringify_eval)

lemmas number_eval = read_number_def read_int_def read_fraction_def read_exponent_def
  read_digits_def is_digit_def

lemma tokenize_payload:
  "tokenize (JSON_stringify (payload prompt imageBase64)) =
     Some [LBrace, TString (lit ''messages''), Colon, LBracket,
       LBrace, TString (lit ''role''), Colon, TString (lit ''user''), Comma,
       TString (lit ''content''), Colon, LBracket,
       LBrace, TString (lit ''type''), Colon, TString (lit ''image''), Comma,
       TString (lit ''source''), Colon,
       LBrace, TString (lit ''type''), Colon, TString (lit ''base64''), Comma,
       TString (lit ''media_type''), Colon, TString (lit ''image/png''), Comma,
       TString (lit ''data''), Colon, TString imageBase64, RBrace, RBrace, Comma,
       LBrace, TString (lit ''type''), Colon, TString (lit ''text''), Comma,
       TString (lit ''text''), Colon, TString prompt, RBrace, RBracket, RBrace, RBracket, Comma,
       TString (lit ''max_tokens''), Colon, TNumber (lit ''500''), Comma,
       TString (lit ''temperature''), Colon, TNumber (lit ''0.5''), Comma,
       TString (lit ''anthropic_version''), Colon, TString (lit ''bedrock-2023-05-31''), Comma,
       TString (lit ''stop_sequences''), Colon, LBracket,
       TString (0x0A # 0x0A # lit ''Human:''), RBracket, RBrace]"
  by (simp add: stringify_eval number_eval is_whitespace_def simple_escape_def
      read_string_quote_units)

lemma JSON_parse_stringify_payload:
  "JSON_parse (JSON_stringify (payload prompt imageBase64)) = Inr (payload prompt imageBase64)"
proof -
  have "JSON_parse (JSON_stringify (payload prompt imageBase64)) =
      (case parse_value []
         [LBrace, TString (lit ''messages''), Colon, LBracket,
          LBrace, TString (lit ''role''), Colon, TString (lit ''user''), Comma,
          TString (lit ''content''), Colon, LBracket,
          LBrace, TString (lit ''type''), Colon, TString (lit ''image''), Comma,
          TString (lit ''source''), Colon,
          LBrace, TString (lit ''type''), Colon, TString (lit ''base64''), Comma,
          TString (lit ''media_type''), Colon, TString (lit ''image/png''), Comma,
          TString (lit ''data''), Colon, TString imageBase64, RBrace, RBrace, Comma,
          LBrace, TString (lit ''type''), Colon, TString (lit ''text''), Comma,
          TString (lit ''text''), Colon, TString prompt, RBrace, RBracket, RBrace, RBracket, Comma,
          TString (lit ''max_tokens''), Colon, TNumber (lit ''500''), Comma,
          TString (lit ''temperature''), Colon, TNumber (lit ''0.5''), Comma,
          TString (lit ''anthropic_version''), Colon, TString (lit ''bedrock-2023-05-31''), Comma,
          TString (lit ''stop_sequences''), Colon, LBracket,
          TString (0x0A # 0x0A # lit ''Human:''), RBracket, RBrace]
       of None \<Rightarrow> Inl SyntaxError | Some v \<Rightarrow> Inr v)"
    unfolding JSON_parse_def tokenize_payload by simp
  also have "\<dots> = Inr (payload prompt imageBase64)"
    by (simp add: payload_def image_block_def text_block_def lit_def)
  finally show ?thesis .
qed


section \<open>Properties of loadImageAsBase64\<close>

lemma loadImageAsBase64_read:
  "readFile e filePath = Inr data \<Longrightarrow>
   loadImageAsBase64 e filePath s = (Inr (base64_encode data), s\<lparr>reads := reads s @ [filePath]\<rparr>)"
  by (simp add: loadImageAsBase64_def)

lemma loadImageAsBase64_rejected:
  "readFile e filePath = Inl err \<Longrightarrow>
   loadImageAsBase64 e filePath s =
     (Inl err,
      s\<lparr>reads := reads s @ [filePath],
        stderr := stderr s @ [[Text (lit ''Error loading the image:''), Thrown err]]\<rparr>)"
  by (simp add: loadImageAsBase64_def console_error_def)

lemma demo_env_readFile_png:
  "readFile (demo_env outcome) (lit ''S3Permissions.png'') = Inr [0x89, 0x50, 0x4E, 0x47, 0x0D]"
  by (simp add: demo_env_def)

lemma demo_env_readFile_jpg:
  "readFile (demo_env outcome) (lit ''photo.jpg'') = Inr [0xFF, 0xD8, 0xFF, 0xE0]"
  by (simp add: demo_env_def lit_def)

lemma demo_env_readFile_missing:
  "readFile (demo_env outcome) (lit ''missing.png'') = Inl (SystemError ''ENOENT'')"
  by (simp add: demo_env_def lit_def)

lemma demo_env_send: "send (demo_env outcome) r cmd = outcome"
  by (simp add: demo_env_def)

text \<open>
  C2. For every path whose file can be read, the string that \<open>loadImageAsBase64\<close> returns
  decodes, by base64, to exactly the bytes of the file.
\<close>

theorem loadImageAsBase64_round_trip:
  assumes "readFile e filePath = Inr data"
  shows "\<exists>base64String. fst (loadImageAsBase64 e filePath s) = Inr base64String
           \<and> base64_decode base64String = Some data"
  using assms by (simp add: loadImageAsBase64_read base64_decode_encode)

theorem loadImageAsBase64_round_trip_witness:
  "\<exists>base64String.
     fst (loadImageAsBase64 (demo_env (Inl TypeError)) (lit ''S3Permissions.png'') io0)
       = Inr base64String
     \<and> base64_decode base64String = Some [0x89, 0x50, 0x4E, 0x47, 0x0D]"
  using loadImageAsBase64_round_trip [OF demo_env_readFile_png, of "Inl TypeError" io0] .

text \<open>
  C6. For every path that \<^verbatim>\<open>fs.readFile\<close> rejects, \<open>loadImageAsBase64\<close> fails, the
  caller sees the failure (no string is returned, empty or not), and the error that
  reaches the caller is the one \<^verbatim>\<open>fs.readFile\<close> gave.
\<close>

theorem loadImageAsBase64_read_error:
  assumes "readFile e filePath = Inl err"
  shows "fst (loadImageAsBase64 e filePath s) = Inl err
           \<and> (\<forall>base64String. fst (loadImageAsBase64 e filePath s) \<noteq> Inr base64String)"
  using assms by (simp add: loadImageAsBase64_rejected)

theorem loadImageAsBase64_read_error_witness:
  "fst (loadImageAsBase64 (demo_env (Inl TypeError)) (lit ''missing.png'') io0)
     = Inl (SystemError ''ENOENT'')
   \<and> (\<forall>base64String.
         fst (loadImageAsBase64 (demo_env (Inl TypeError)) (lit ''missing.png'') io0)
           \<noteq> Inr base64String)"
  using loadImageAsBase64_read_error [OF demo_env_readFile_missing, of "Inl TypeError" io0] .

text \<open>
  C7, as stated: \<open>loadImageAsBase64\<close> writes nothing to any output stream, whether the
  read succeeds or fails. It does not hold: for a path that does not exist the
  \<^verbatim>\<open>catch\<close> block calls \<^verbatim>\<open>console.error\<close>, so standard error has changed.
\<close>

theorem loadImageAsBase64_writes_on_failure:
  "stderr (snd (loadImageAsBase64 (demo_env (Inl TypeError)) (lit ''missing.png'') io0))
     \<noteq> stderr io0"
  by (simp add: loadImageAsBase64_rejected [OF demo_env_readFile_missing] io0_def)

text \<open>
  C7, amended. When the read succeeds, the only effect of \<open>loadImageAsBase64\<close> is the
  read: both output streams and the requests sent are as before. When the read fails, it
  has also written one entry to standard error, the text \<^verbatim>\<open>Error loading the image:\<close>
  followed by the error, and nothing to standard output.
\<close>

theorem loadImageAsBase64_effects:
  "(readFile e filePath = Inr data \<longrightarrow>
      snd (loadImageAsBase64 e filePath s) = s\<lparr>reads := reads s @ [filePath]\<rparr>)
   \<and> (readFile e filePath = Inl err \<longrightarrow>
      snd (loadImageAsBase64 e filePath s) =
        s\<lparr>reads := reads s @ [filePath],
          stderr := stderr s @ [[Text (lit ''Error loading the image:''), Thrown err]]\<rparr>)"
  by (simp add: loadImageAsBase64_read loadImageAsBase64_rejected)

theorem loadImageAsBase64_effects_witness:
  "snd (loadImageAsBase64 (demo_env (Inl TypeError)) (lit ''S3Permissions.png'') io0)
     = io0\<lparr>reads := [lit ''S3Permissions.png'']\<rparr>
   \<and> snd (loadImageAsBase64 (demo_env (Inl TypeError)) (lit ''missing.png'') io0)
     = io0\<lparr>reads := [lit ''missing.png''],
           stderr := [[Text (lit ''Error loading the image:''), Thrown (SystemError ''ENOENT'')]]\<rparr>"
  using loadImageAsBase64_effects [of "demo_env (Inl TypeError)" "lit ''S3Permissions.png''"
      "[0x89, 0x50, 0x4E, 0x47, 0x0D]" io0 TypeError]
    loadImageAsBase64_effects [of "demo_env (Inl TypeError)" "lit ''missing.png''" "[]" io0
      "SystemError ''ENOENT''"]
  by (simp add: demo_env_readFile_png demo_env_readFile_missing io0_def)


section \<open>Properties of invokeClaude\<close>

subsection \<open>The three ways out of the function\<close>

lemma invokeClaude_load_error:
  "readFile e imagePath = Inl err \<Longrightarrow> fst (invokeClaude e prompt imagePath s) = Inl err"
  by (simp add: invokeClaude_def loadImageAsBase64_rejected)

lemma invokeClaude_returned:
  assumes "readFile e imagePath = Inr data"
    and "remote_exchange e (invoke_command prompt (base64_encode data)) = Inr completion"
  shows "invokeClaude e prompt imagePath s =
    (Inr completion,
     s\<lparr>reads := reads s @ [imagePath],
       sent := sent s @ [(region, invoke_command prompt (base64_encode data))]\<rparr>)"
  using assms by (simp add: invokeClaude_def loadImageAsBase64_read)

lemma invokeClaude_denied:
  assumes "readFile e imagePath = Inr data"
    and "remote_exchange e (invoke_command prompt (base64_encode data)) = Inl err"
    and "is_AccessDeniedException err"
  shows "invokeClaude e prompt imagePath s =
    (Inr None,
     s\<lparr>reads := reads s @ [imagePath],
       sent := sent s @ [(region, invoke_command prompt (base64_encode data))],
       stderr := stderr s @ [[Text access_denied_message]]\<rparr>)"
  using assms by (simp add: invokeClaude_def loadImageAsBase64_read console_error_def)

lemma invokeClaude_thrown:
  assumes "readFile e imagePath = Inr data"
    and "remote_exchange e (invoke_command prompt (base64_encode data)) = Inl err"
    and "\<not> is_AccessDeniedException err"
  shows "invokeClaude e prompt imagePath s =
    (Inl err,
     s\<lparr>reads := reads s @ [imagePath],
       sent := sent s @ [(region, invoke_command prompt (base64_encode data))]\<rparr>)"
  using assms by (simp add: invokeClaude_def loadImageAsBase64_read)

subsection \<open>The request that is submitted\<close>

text \<open>
  A request is submitted exactly when the image has been read, and it is then the command
  built from the prompt and the base64 text of the file, sent by the client of the region.
\<close>

lemma invokeClaude_sent:
  assumes "readFile e imagePath = Inr data"
  shows "sent (snd (invokeClaude e prompt imagePath s)) =
    sent s @ [(region, invoke_command prompt (base64_encode data))]"
  using assms
  by (simp add: invokeClaude_def loadImageAsBase64_read console_error_def Let_def
      split: sum.splits)

lemma invokeClaude_nothing_sent:
  "readFile e imagePath = Inl err \<Longrightarrow> sent (snd (invokeClaude e prompt imagePath s)) = sent s"
  by (simp add: invokeClaude_def loadImageAsBase64_rejected)

lemma invokeClaude_submitted:
  assumes "sent (snd (invokeClaude e prompt imagePath s)) = sent s @ [(r, cmd)]"
  obtains data where "readFile e imagePath = Inr data" and "r = region"
    and "cmd = invoke_command prompt (base64_encode data)"
proof (cases "readFile e imagePath")
  case (Inl err)
  then have "sent (snd (invokeClaude e prompt imagePath s)) = sent s"
    by (rule invokeClaude_nothing_sent)
  with assms show ?thesis by simp
next
  case (Inr data)
  then have "sent (snd (invokeClaude e prompt imagePath s)) =
      sent s @ [(region, invoke_command prompt (base64_encode data))]"
    by (rule invokeClaude_sent)
  with assms have "r = region" "cmd = invoke_command prompt (base64_encode data)"
    by simp_all
  with Inr show ?thesis by (rule that)
qed

lemma body_invoke_command:
  "JSON_parse (body (invoke_command prompt imageBase64)) = Inr (payload prompt imageBase64)"
  by (simp add: invoke_command_def JSON_parse_stringify_payload)

lemmas base64_eval = sextet1_def sextet2_def sextet3_def sextet4_def base64_char_def
  base64_alphabet_def base64_pad_def lit_def

lemma base64_encode_png: "base64_encode [0x89, 0x50, 0x4E, 0x47, 0x0D] = lit ''iVBORw0=''"
  by (simp add: base64_eval)

lemma base64_encode_jpg: "base64_encode [0xFF, 0xD8, 0xFF, 0xE0] = lit ''/9j/4A==''"
  by (simp add: base64_eval)

lemma demo_env_submits_png:
  "sent (snd (invokeClaude (demo_env outcome) prompt (lit ''S3Permissions.png'') io0)) =
     sent io0 @ [(region, invoke_command prompt (lit ''iVBORw0=''))]"
  using invokeClaude_sent [OF demo_env_readFile_png] unfolding base64_encode_png .

lemma demo_env_submits_jpg:
  "sent (snd (invokeClaude (demo_env outcome) prompt (lit ''photo.jpg'') io0)) =
     sent io0 @ [(region, invoke_command prompt (lit ''/9j/4A==''))]"
  using invokeClaude_sent [OF demo_env_readFile_jpg] unfolding base64_encode_jpg .

subsection \<open>The exchange with the endpoint\<close>

lemma remote_exchange_send_error:
  "send e region cmd = Inl err \<Longrightarrow> remote_exchange e cmd = Inl err"
  by (simp add: remote_exchange_def)

lemma JSON_parse_error: "JSON_parse text = Inl err \<Longrightarrow> err = SyntaxError"
  by (auto simp add: JSON_parse_def split: option.splits)

lemma remote_exchange_parse_error:
  "send e region cmd = Inr response_body \<Longrightarrow>
   JSON_parse (TextDecoder_decode response_body) = Inl err \<Longrightarrow>
   remote_exchange e cmd = Inl SyntaxError"
  by (auto simp add: remote_exchange_def dest: JSON_parse_error)

lemma remote_exchange_parsed:
  "send e region cmd = Inr response_body \<Longrightarrow>
   JSON_parse (TextDecoder_decode response_body) = Inr responseBody \<Longrightarrow>
   remote_exchange e cmd =
     (case get_member (Some responseBody) (lit ''content'') of
        Inl err \<Rightarrow> Inl err
      | Inr content \<Rightarrow>
          (case get_element0 content of
             Inl err \<Rightarrow> Inl err
           | Inr first \<Rightarrow> get_member first (lit ''text'')))"
  by (simp add: remote_exchange_def)

lemma remote_exchange_first_text:
  assumes "send e region cmd = Inr response_body"
    and "JSON_parse (TextDecoder_decode response_body) = Inr (JObject members)"
    and "map_of members (lit ''content'') = Some (JArray (JObject first # others))"
  shows "remote_exchange e cmd = Inr (map_of first (lit ''text''))"
  using assms by (simp add: remote_exchange_parsed)

lemma remote_exchange_empty_content:
  assumes "send e region cmd = Inr response_body"
    and "JSON_parse (TextDecoder_decode response_body) = Inr (JObject members)"
    and "map_of members (lit ''content'') = Some (JArray [])"
  shows "remote_exchange e cmd = Inl TypeError"
  using assms by (simp add: remote_exchange_parsed)

lemmas text_eval = JSON_parse_def TextDecoder_decode_def utf8_bytes_def utf8_lead_def
  strip_bom_def utf16_units_def lit_def is_whitespace_def is_digit_def

lemma parse_hello:
  \<open>JSON_parse (TextDecoder_decode (utf8_bytes ''{"content":[{"text":"hello"}]}'')) =
     Inr (JObject [(lit ''content'', JArray [JObject [(lit ''text'', JString (lit ''hello''))]])])\<close>
  by (simp add: text_eval)

lemma parse_truncated:
  \<open>JSON_parse (TextDecoder_decode (utf8_bytes ''{"content":[{"text":"hel'')) = Inl SyntaxError\<close>
  by (simp add: text_eval)

lemma parse_empty_content:
  \<open>JSON_parse (TextDecoder_decode (utf8_bytes ''{"content":[]}'')) =
     Inr (JObject [(lit ''content'', JArray [])])\<close>
  by (simp add: text_eval)

lemma parse_no_text:
  \<open>JSON_parse (TextDecoder_decode (utf8_bytes ''{"content":[{}]}'')) =
     Inr (JObject [(lit ''content'', JArray [JObject []])])\<close>
  by (simp add: text_eval)

lemma access_denied_message_text:
  "access_denied_message =
     lit ''Access denied. Ensure you have the correct permissions to invoke anthropic.claude-3-haiku-20240307-v1:0.''"
  by (simp add: access_denied_message_def haiku_modelId_def lit_def)

lemma access_denied_message_names_model:
  "sublist (lit ''anthropic.claude-3-haiku-20240307-v1:0'') access_denied_message"
  unfolding access_denied_message_def haiku_modelId_def sublist_def by blast

subsection \<open>What the invocation returns\<close>

text \<open>
  In the theorems below, the hypothesis
  \<open>sent (snd (invokeClaude e prompt imagePath s)) = sent s @ [(r, cmd)]\<close> says that the
  invocation submits the request \<open>cmd\<close>, and \<open>send e r cmd\<close> is what the endpoint does with
  it.
\<close>

lemma parse_two_parts:
  \<open>JSON_parse (TextDecoder_decode (utf8_bytes
       ''{"role":"assistant","content":[{"type":"text","text":"A bucket policy."},{"type":"text","text":"More."}]}'')) =
     Inr (JObject
       [(lit ''role'', JString (lit ''assistant'')),
        (lit ''content'',
         JArray
           [JObject [(lit ''type'', JString (lit ''text'')),
                     (lit ''text'', JString (lit ''A bucket policy.''))],
            JObject [(lit ''type'', JString (lit ''text'')),
                     (lit ''text'', JString (lit ''More.''))]])])\<close>
  by (simp add: text_eval)

text \<open>
  C1. For every prompt and image path, \<open>invokeClaude\<close> returns the \<^verbatim>\<open>text\<close> of the
  first element of the \<^verbatim>\<open>content\<close> array of the response: whenever the body with which
  the endpoint answers the request is JSON for an object whose \<^verbatim>\<open>content\<close> begins with
  an object whose \<^verbatim>\<open>text\<close> is a string, that string is the result, whatever else the
  response holds. In particular, for the body \<^verbatim>\<open>{"content":[{"text":"hello"}]}\<close> the
  result is exactly the string \<^verbatim>\<open>hello\<close>.
\<close>

theorem invokeClaude_returns_first_text:
  assumes "sent (snd (invokeClaude e prompt imagePath s)) = sent s @ [(r, cmd)]"
    and "send e r cmd = Inr response_body"
  shows \<open>(response_body = utf8_bytes ''{"content":[{"text":"hello"}]}''
          \<longrightarrow> fst (invokeClaude e prompt imagePath s) = Inr (Some (JString (lit ''hello''))))
    \<and> (JSON_parse (TextDecoder_decode response_body) = Inr (JObject members)
          \<and> map_of members (lit ''content'') = Some (JArray (JObject first # others))
          \<and> map_of first (lit ''text'') = Some (JString completion)
          \<longrightarrow> fst (invokeClaude e prompt imagePath s) = Inr (Some (JString completion)))\<close>
proof -
  from assms(1) obtain data where read: "readFile e imagePath = Inr data"
    and sent: "r = region" "cmd = invoke_command prompt (base64_encode data)"
    by (rule invokeClaude_submitted)
  note answer = assms(2) [unfolded sent(1)]
  have first_text: "fst (invokeClaude e prompt imagePath s) = Inr (map_of fields (lit ''text''))"
    if "JSON_parse (TextDecoder_decode response_body) = Inr (JObject ms)"
      and "map_of ms (lit ''content'') = Some (JArray (JObject fields # rest))"
    for ms fields rest
  proof -
    from answer that have "remote_exchange e cmd = Inr (map_of fields (lit ''text''))"
      by (rule remote_exchange_first_text)
    then show ?thesis
      using read sent(2) by (simp add: invokeClaude_returned)
  qed
  show ?thesis
  proof (intro conjI impI)
    assume \<open>response_body = utf8_bytes ''{"content":[{"text":"hello"}]}''\<close>
    then have "JSON_parse (TextDecoder_decode response_body) =
        Inr (JObject [(lit ''content'', JArray [JObject [(lit ''text'', JString (lit ''hello''))]])])"
      by (simp only: parse_hello)
    then have "fst (invokeClaude e prompt imagePath s) =
        Inr (map_of [(lit ''text'', JString (lit ''hello''))] (lit ''text''))"
      by (rule first_text) simp
    then show "fst (invokeClaude e prompt imagePath s) = Inr (Some (JString (lit ''hello'')))"
      by simp
  next
    assume *: "JSON_parse (TextDecoder_decode response_body) = Inr (JObject members)
        \<and> map_of members (lit ''content'') = Some (JArray (JObject first # others))
        \<and> map_of first (lit ''text'') = Some (JString completion)"
    then have "fst (invokeClaude e prompt imagePath s) = Inr (map_of first (lit ''text''))"
      using first_text [of members first others] by simp
    with * show "fst (invokeClaude e prompt imagePath s) = Inr (Some (JString completion))"
      by simp
  qed
qed

theorem invokeClaude_returns_first_text_witness:
  \<open>fst (invokeClaude (demo_env (Inr (utf8_bytes ''{"content":[{"text":"hello"}]}'')))
          (lit ''Provide me more details about this image'') (lit ''S3Permissions.png'') io0)
     = Inr (Some (JString (lit ''hello'')))
   \<and> fst (invokeClaude (demo_env (Inr (utf8_bytes
            ''{"role":"assistant","content":[{"type":"text","text":"A bucket policy."},{"type":"text","text":"More."}]}'')))
          (lit ''What is this?'') (lit ''photo.jpg'') io0)
     = Inr (Some (JString (lit ''A bucket policy.'')))\<close>
  using invokeClaude_returns_first_text [OF demo_env_submits_png demo_env_send,
      where prompt = "lit ''Provide me more details about this image''"
        and response_body = \<open>utf8_bytes ''{"content":[{"text":"hello"}]}''\<close>]
    invokeClaude_returns_first_text [OF demo_env_submits_jpg demo_env_send,
      where prompt = "lit ''What is this?''"
        and members = "[(lit ''role'', JString (lit ''assistant'')),
          (lit ''content'',
           JArray
             [JObject [(lit ''type'', JString (lit ''text'')),
                       (lit ''text'', JString (lit ''A bucket policy.''))],
              JObject [(lit ''type'', JString (lit ''text'')),
                       (lit ''text'', JString (lit ''More.''))]])]"
        and first = "[(lit ''type'', JString (lit ''text'')),
                      (lit ''text'', JString (lit ''A bucket policy.''))]"
        and others = "[JObject [(lit ''type'', JString (lit ''text'')),
                                (lit ''text'', JString (lit ''More.''))]]"
        and completion = "lit ''A bucket policy.''"]
  by (simp add: parse_two_parts lit_def)

text \<open>
  C3. Whenever the endpoint throws an \<open>AccessDeniedException\<close>, \<open>invokeClaude\<close> catches
  it: it returns \<^verbatim>\<open>undefined\<close> instead of throwing, after writing to standard error one
  warning that names the model id \<^verbatim>\<open>anthropic.claude-3-haiku-20240307-v1:0\<close>.
\<close>

theorem invokeClaude_access_denied:
  assumes "sent (snd (invokeClaude e prompt imagePath s)) = sent s @ [(r, cmd)]"
    and "send e r cmd = Inl (AccessDeniedException message)"
  shows "fst (invokeClaude e prompt imagePath s) = Inr None
    \<and> stderr (snd (invokeClaude e prompt imagePath s)) =
        stderr s @ [[Text (lit ''Access denied. Ensure you have the correct permissions to invoke anthropic.claude-3-haiku-20240307-v1:0.'')]]
    \<and> stdout (snd (invokeClaude e prompt imagePath s)) = stdout s
    \<and> sublist (lit ''anthropic.claude-3-haiku-20240307-v1:0'') access_denied_message"
proof -
  from assms(1) obtain data where read: "readFile e imagePath = Inr data"
    and sent: "r = region" "cmd = invoke_command prompt (base64_encode data)"
    by (rule invokeClaude_submitted)
  have "remote_exchange e cmd = Inl (AccessDeniedException message)"
    using assms(2) [unfolded sent(1)] by (rule remote_exchange_send_error)
  then have "invokeClaude e prompt imagePath s =
      (Inr None,
       s\<lparr>reads := reads s @ [imagePath],
         sent := sent s @ [(region, invoke_command prompt (base64_encode data))],
         stderr := stderr s @ [[Text access_denied_message]]\<rparr>)"
    using read sent(2) by (simp add: invokeClaude_denied)
  then show ?thesis
    by (simp add: access_denied_message_text [symmetric] access_denied_message_names_model)
qed

theorem invokeClaude_access_denied_witness:
  "fst (invokeClaude (demo_env (Inl (AccessDeniedException ''not authorized'')))
          (lit ''Provide me more details about this image'') (lit ''S3Permissions.png'') io0)
     = Inr None
   \<and> stderr (snd (invokeClaude (demo_env (Inl (AccessDeniedException ''not authorized'')))
          (lit ''Provide me more details about this image'') (lit ''S3Permissions.png'') io0))
     = [[Text (lit ''Access denied. Ensure you have the correct permissions to invoke anthropic.claude-3-haiku-20240307-v1:0.'')]]"
  using invokeClaude_access_denied [OF demo_env_submits_png demo_env_send,
      where message = "''not authorized''"
        and prompt = "lit ''Provide me more details about this image''"]
  by (simp add: io0_def)

text \<open>
  C4. Every failure of the remote exchange that is not an \<open>AccessDeniedException\<close>
  leaves \<open>invokeClaude\<close> as the error it is: an error thrown by the endpoint, the
  \<open>SyntaxError\<close> of a response body that is not JSON, and any other error raised inside the
  \<^verbatim>\<open>try\<close> block. No value is returned in its place and nothing is written.
\<close>

theorem invokeClaude_propagates_other_errors:
  assumes "sent (snd (invokeClaude e prompt imagePath s)) = sent s @ [(r, cmd)]"
  shows "(send e r cmd = Inl err \<and> \<not> is_AccessDeniedException err
          \<longrightarrow> fst (invokeClaude e prompt imagePath s) = Inl err)
    \<and> (send e r cmd = Inr response_body
            \<and> JSON_parse (TextDecoder_decode response_body) = Inl parse_error
          \<longrightarrow> fst (invokeClaude e prompt imagePath s) = Inl SyntaxError)
    \<and> (remote_exchange e cmd = Inl err \<and> \<not> is_AccessDeniedException err
          \<longrightarrow> fst (invokeClaude e prompt imagePath s) = Inl err
              \<and> stderr (snd (invokeClaude e prompt imagePath s)) = stderr s
              \<and> stdout (snd (invokeClaude e prompt imagePath s)) = stdout s)"
proof -
  from assms obtain data where read: "readFile e imagePath = Inr data"
    and sent: "r = region" "cmd = invoke_command prompt (base64_encode data)"
    by (rule invokeClaude_submitted)
  show ?thesis
    using read unfolding sent
    by (auto simp add: invokeClaude_thrown remote_exchange_send_error
        dest: remote_exchange_parse_error)
qed

theorem invokeClaude_propagates_other_errors_witness:
  \<open>fst (invokeClaude (demo_env (Inl (OtherException ''ThrottlingException'' ''slow down'')))
          (lit ''Provide me more details about this image'') (lit ''S3Permissions.png'') io0)
     = Inl (OtherException ''ThrottlingException'' ''slow down'')
   \<and> fst (invokeClaude (demo_env (Inr (utf8_bytes ''{"content":[{"text":"hel'')))
          (lit ''Provide me more details about this image'') (lit ''S3Permissions.png'') io0)
     = Inl SyntaxError\<close>
  using invokeClaude_propagates_other_errors [OF demo_env_submits_png,
      where outcome1 = "Inl (OtherException ''ThrottlingException'' ''slow down'')"
        and prompt = "lit ''Provide me more details about this image''"
        and err = "OtherException ''ThrottlingException'' ''slow down''"]
    invokeClaude_propagates_other_errors [OF demo_env_submits_png,
      where outcome1 = \<open>Inr (utf8_bytes ''{"content":[{"text":"hel'')\<close>
        and prompt = "lit ''Provide me more details about this image''"
        and response_body = \<open>utf8_bytes ''{"content":[{"text":"hel''\<close>
        and parse_error = SyntaxError]
  by (simp add: demo_env_send parse_truncated)

text \<open>
  C9, as stated: when the response is a JSON object whose \<^verbatim>\<open>content\<close> array is empty,
  or whose first element has no \<^verbatim>\<open>text\<close>, a failure propagates to the caller. The
  second half does not hold: for the body \<^verbatim>\<open>{"content":[{}]}\<close> reading \<^verbatim>\<open>.text\<close>
  of the empty object gives \<^verbatim>\<open>undefined\<close>, and \<open>invokeClaude\<close> returns it. No error
  is thrown.
\<close>

theorem invokeClaude_missing_text_returns_undefined:
  \<open>fst (invokeClaude (demo_env (Inr (utf8_bytes ''{"content":[{}]}'')))
          (lit ''Provide me more details about this image'') (lit ''S3Permissions.png'') io0)
     = Inr None\<close>
proof -
  have "remote_exchange (demo_env (Inr (utf8_bytes ''{\"content\":[{}]}'')))
      (invoke_command (lit ''Provide me more details about this image'')
        (base64_encode [0x89, 0x50, 0x4E, 0x47, 0x0D])) = Inr (map_of [] (lit ''text''))"
    using demo_env_send parse_no_text by (rule remote_exchange_first_text) simp
  then show ?thesis
    by (simp add: invokeClaude_returned [OF demo_env_readFile_png])
qed

text \<open>
  C9, amended. When the response is a JSON object whose \<^verbatim>\<open>content\<close> array is empty,
  \<open>invokeClaude\<close> returns no completion: the \<open>TypeError\<close> of reading \<^verbatim>\<open>.text\<close> of
  \<^verbatim>\<open>undefined\<close> propagates to the caller. When the first element of \<^verbatim>\<open>content\<close>
  is an object with no \<^verbatim>\<open>text\<close>, \<open>invokeClaude\<close> returns \<^verbatim>\<open>undefined\<close> and throws
  nothing.
\<close>

theorem invokeClaude_without_completion:
  assumes "sent (snd (invokeClaude e prompt imagePath s)) = sent s @ [(r, cmd)]"
    and "send e r cmd = Inr response_body"
    and "JSON_parse (TextDecoder_decode response_body) = Inr (JObject members)"
  shows "(map_of members (lit ''content'') = Some (JArray [])
          \<longrightarrow> fst (invokeClaude e prompt imagePath s) = Inl TypeError)
    \<and> (map_of members (lit ''content'') = Some (JArray (JObject first # others))
            \<and> map_of first (lit ''text'') = None
          \<longrightarrow> fst (invokeClaude e prompt imagePath s) = Inr None)"
proof -
  from assms(1) obtain data where read: "readFile e imagePath = Inr data"
    and sent: "r = region" "cmd = invoke_command prompt (base64_encode data)"
    by (rule invokeClaude_submitted)
  note answer = assms(2) [unfolded sent(1)]
  show ?thesis
  proof (intro conjI impI)
    assume "map_of members (lit ''content'') = Some (JArray [])"
    with answer assms(3) have "remote_exchange e cmd = Inl TypeError"
      by (rule remote_exchange_empty_content)
    then show "fst (invokeClaude e prompt imagePath s) = Inl TypeError"
      using read sent(2) by (simp add: invokeClaude_thrown)
  next
    assume *: "map_of members (lit ''content'') = Some (JArray (JObject first # others))
        \<and> map_of first (lit ''text'') = None"
    with answer assms(3) have "remote_exchange e cmd = Inr (map_of first (lit ''text''))"
      by (simp add: remote_exchange_first_text)
    with * show "fst (invokeClaude e prompt imagePath s) = Inr None"
      using read sent(2) by (simp add: invokeClaude_returned)
  qed
qed

theorem invokeClaude_without_completion_witness:
  \<open>fst (invokeClaude (demo_env (Inr (utf8_bytes ''{"content":[]}'')))
          (lit ''Provide me more details about this image'') (lit ''S3Permissions.png'') io0)
     = Inl TypeError
   \<and> fst (invokeClaude (demo_env (Inr (utf8_bytes ''{"content":[{}]}'')))
          (lit ''What is this?'') (lit ''S3Permissions.png'') io0)
     = Inr None\<close>
  using invokeClaude_without_completion [OF demo_env_submits_png demo_env_send parse_empty_content,
      where prompt = "lit ''Provide me more details about this image''"]
    invokeClaude_without_completion [OF demo_env_submits_png demo_env_send parse_no_text,
      where prompt = "lit ''What is this?''" and first = "[]" and others = "[]"]
  by simp

subsection \<open>What the invocation submits\<close>

text \<open>
  C5. For every prompt and every image, the body of the request that \<open>invokeClaude\<close>
  submits is JSON whose \<^verbatim>\<open>messages\<close> holds exactly one message, and the
  \<^verbatim>\<open>content\<close> of that message has exactly two parts in this order: the image block
  with the base64 text of the file, then the text block with the prompt.
\<close>

theorem request_has_one_message_of_two_parts:
  assumes "sent (snd (invokeClaude e prompt imagePath s)) = sent s @ [(r, cmd)]"
  shows "\<exists>requestBody data.
      readFile e imagePath = Inr data
    \<and> JSON_parse (body cmd) = Inr requestBody
    \<and> get_member (Some requestBody) (lit ''messages'') =
        Inr (Some (JArray
          [JObject
             [(lit ''role'', JString (lit ''user'')),
              (lit ''content'',
               JArray
                 [JObject
                    [(lit ''type'', JString (lit ''image'')),
                     (lit ''source'',
                      JObject
                        [(lit ''type'', JString (lit ''base64'')),
                         (lit ''media_type'', JString (lit ''image/png'')),
                         (lit ''data'', JString (base64_encode data))])],
                  JObject
                    [(lit ''type'', JString (lit ''text'')),
                     (lit ''text'', JString prompt)]])]]))"
proof -
  from assms obtain data where read: "readFile e imagePath = Inr data"
    and sent: "r = region" "cmd = invoke_command prompt (base64_encode data)"
    by (rule invokeClaude_submitted)
  have "JSON_parse (body cmd) = Inr (payload prompt (base64_encode data))"
    unfolding sent by (rule body_invoke_command)
  with read show ?thesis
    by (intro exI conjI) (assumption+, simp add: payload_def image_block_def text_block_def)
qed

theorem request_has_one_message_of_two_parts_witness:
  \<open>\<exists>requestBody data.
      readFile (demo_env (Inr (utf8_bytes ''{"content":[{"text":"hello"}]}'')))
        (lit ''S3Permissions.png'') = Inr data
    \<and> JSON_parse (body (invoke_command (lit ''Provide me more details about this image'')
        (lit ''iVBORw0=''))) = Inr requestBody
    \<and> get_member (Some requestBody) (lit ''messages'') =
        Inr (Some (JArray
          [JObject
             [(lit ''role'', JString (lit ''user'')),
              (lit ''content'',
               JArray
                 [JObject
                    [(lit ''type'', JString (lit ''image'')),
                     (lit ''source'',
                      JObject
                        [(lit ''type'', JString (lit ''base64'')),
                         (lit ''media_type'', JString (lit ''image/png'')),
                         (lit ''data'', JString (base64_encode data))])],
                  JObject
                    [(lit ''type'', JString (lit ''text'')),
                     (lit ''text'',
                      JString (lit ''Provide me more details about this image''))]])]]))\<close>
  by (rule request_has_one_message_of_two_parts [OF demo_env_submits_png])

text \<open>
  C8. For every invocation, the request submitted has \<^verbatim>\<open>modelId\<close> the model
  identifier, \<^verbatim>\<open>contentType\<close> and \<^verbatim>\<open>accept\<close> both \<^verbatim>\<open>application/json\<close>, and a
  body that is a JSON object with exactly the keys \<^verbatim>\<open>messages\<close>, \<^verbatim>\<open>max_tokens\<close>,
  \<^verbatim>\<open>temperature\<close>, \<^verbatim>\<open>anthropic_version\<close> and \<^verbatim>\<open>stop_sequences\<close>.
\<close>

theorem request_fields_and_body_keys:
  assumes "sent (snd (invokeClaude e prompt imagePath s)) = sent s @ [(r, cmd)]"
  shows "modelId cmd = lit ''anthropic.claude-3-haiku-20240307-v1:0''
    \<and> contentType cmd = lit ''application/json''
    \<and> accept cmd = lit ''application/json''
    \<and> (\<exists>members. JSON_parse (body cmd) = Inr (JObject members)
          \<and> map fst members =
              [lit ''messages'', lit ''max_tokens'', lit ''temperature'',
               lit ''anthropic_version'', lit ''stop_sequences''])"
proof -
  from assms obtain data where
    sent: "r = region" "cmd = invoke_command prompt (base64_encode data)"
    by (rule invokeClaude_submitted)
  have "JSON_parse (body cmd) = Inr (payload prompt (base64_encode data))"
    unfolding sent by (rule body_invoke_command)
  then have "\<exists>members. JSON_parse (body cmd) = Inr (JObject members)
      \<and> map fst members =
          [lit ''messages'', lit ''max_tokens'', lit ''temperature'',
           lit ''anthropic_version'', lit ''stop_sequences'']"
    by (simp add: payload_def)
  then show ?thesis
    unfolding sent by (simp add: invoke_command_def haiku_modelId_def)
qed

theorem request_fields_and_body_keys_witness:
  \<open>modelId (invoke_command (lit ''What is this?'') (lit ''iVBORw0=''))
     = lit ''anthropic.claude-3-haiku-20240307-v1:0''
   \<and> contentType (invoke_command (lit ''What is this?'') (lit ''iVBORw0=''))
     = lit ''application/json''
   \<and> accept (invoke_command (lit ''What is this?'') (lit ''iVBORw0='')) = lit ''application/json''
   \<and> (\<exists>members.
        JSON_parse (body (invoke_command (lit ''What is this?'') (lit ''iVBORw0='')))
          = Inr (JObject members)
        \<and> map fst members =
            [lit ''messages'', lit ''max_tokens'', lit ''temperature'',
             lit ''anthropic_version'', lit ''stop_sequences''])\<close>
  by (rule request_fields_and_body_keys [OF demo_env_submits_png])

text \<open>
  C10. For every image path, whatever the format of the file or its extension, the image
  block of the request declares the media type \<^verbatim>\<open>image/png\<close>, and the generation
  parameters are always \<^verbatim>\<open>max_tokens\<close> 500, \<^verbatim>\<open>temperature\<close> 0.5,
  \<^verbatim>\<open>anthropic_version\<close> \<^verbatim>\<open>bedrock-2023-05-31\<close> and \<^verbatim>\<open>stop_sequences\<close> holding the
  one string of two line feeds and \<^verbatim>\<open>Human:\<close>.
\<close>

theorem request_fixed_parameters:
  assumes "sent (snd (invokeClaude e prompt imagePath s)) = sent s @ [(r, cmd)]"
  shows "\<exists>requestBody message image_part text_part source.
      JSON_parse (body cmd) = Inr requestBody
    \<and> get_member (Some requestBody) (lit ''messages'') = Inr (Some (JArray [message]))
    \<and> get_member (Some message) (lit ''content'') = Inr (Some (JArray [image_part, text_part]))
    \<and> get_member (Some image_part) (lit ''type'') = Inr (Some (JString (lit ''image'')))
    \<and> get_member (Some image_part) (lit ''source'') = Inr (Some source)
    \<and> get_member (Some source) (lit ''media_type'') = Inr (Some (JString (lit ''image/png'')))
    \<and> get_member (Some requestBody) (lit ''max_tokens'') = Inr (Some (JNumber (lit ''500'')))
    \<and> get_member (Some requestBody) (lit ''temperature'') = Inr (Some (JNumber (lit ''0.5'')))
    \<and> get_member (Some requestBody) (lit ''anthropic_version'') =
        Inr (Some (JString (lit ''bedrock-2023-05-31'')))
    \<and> get_member (Some requestBody) (lit ''stop_sequences'') =
        Inr (Some (JArray [JString (0x0A # 0x0A # lit ''Human:'')]))"
proof -
  from assms obtain data where
    sent: "r = region" "cmd = invoke_command prompt (base64_encode data)"
    by (rule invokeClaude_submitted)
  show ?thesis
  proof (intro exI conjI)
    show "JSON_parse (body cmd) = Inr (payload prompt (base64_encode data))"
      unfolding sent by (rule body_invoke_command)
    show "get_member (Some (payload prompt (base64_encode data))) (lit ''messages'') =
        Inr (Some (JArray
          [JObject
             [(lit ''role'', JString (lit ''user'')),
              (lit ''content'',
               JArray [image_block (base64_encode data), text_block prompt])]]))"
      by (simp add: payload_def)
    show "get_member (Some (image_block (base64_encode data))) (lit ''source'') =
        Inr (Some (JObject
          [(lit ''type'', JString (lit ''base64'')),
           (lit ''media_type'', JString (lit ''image/png'')),
           (lit ''data'', JString (base64_encode data))]))"
      by (simp add: image_block_def lit_def)
  qed (simp_all add: payload_def image_block_def lit_def)
qed

theorem request_fixed_parameters_witness:
  \<open>\<exists>requestBody message image_part text_part source.
      JSON_parse (body (invoke_command (lit ''What is this?'') (lit ''/9j/4A==''))) = Inr requestBody
    \<and> get_member (Some requestBody) (lit ''messages'') = Inr (Some (JArray [message]))
    \<and> get_member (Some message) (lit ''content'') = Inr (Some (JArray [image_part, text_part]))
    \<and> get_member (Some image_part) (lit ''type'') = Inr (Some (JString (lit ''image'')))
    \<and> get_member (Some image_part) (lit ''source'') = Inr (Some source)
    \<and> get_member (Some source) (lit ''media_type'') = Inr (Some (JString (lit ''image/png'')))
    \<and> get_member (Some requestBody) (lit ''max_tokens'') = Inr (Some (JNumber (lit ''500'')))
    \<and> get_member (Some requestBody) (lit ''temperature'') = Inr (Some (JNumber (lit ''0.5'')))
    \<and> get_member (Some requestBody) (lit ''anthropic_version'') =
        Inr (Some (JString (lit ''bedrock-2023-05-31'')))
    \<and> get_member (Some requestBody) (lit ''stop_sequences'') =
        Inr (Some (JArray [JString (0x0A # 0x0A # lit ''Human:'')]))\<close>
  by (rule request_fixed_parameters [OF demo_env_submits_jpg])

end
